theory Spec2Isabelle
  imports Main
begin

section \<open>The selection model of the Spreadsheet module\<close>

text \<open>
  A shallow embedding of \<^verbatim>\<open>src/js/modules/Spreadsheet/Spreadsheet.js\<close>: the
  class \<^verbatim>\<open>Range\<close>, the selection state of the class \<^verbatim>\<open>Spreadsheet\<close>
  (the fields \<^verbatim>\<open>ranges\<close> and \<^verbatim>\<open>selecting\<close>), its event handlers, the
  two header predicates, \<^verbatim>\<open>getSelectedData\<close> and \<^verbatim>\<open>initialize\<close>.
  Grid coordinates are JavaScript numbers holding integers; they are \<^typ>\<open>int\<close> here.
\<close>

subsection \<open>Range\<close>

record Anchor =
  row :: int
  col :: int

record Range =
  start :: Anchor
  endpt :: Anchor
  minRow :: int
  maxRow :: int
  minCol :: int
  maxCol :: int

text \<open>\<^verbatim>\<open>_updateMinMax\<close>: the four bounds are recomputed from the two anchors.\<close>

definition updateMinMax :: "Range \<Rightarrow> Range" where
  "updateMinMax rg =
     rg\<lparr>minRow := min (row (start rg)) (row (endpt rg)),
        maxRow := max (row (start rg)) (row (endpt rg)),
        minCol := min (col (start rg)) (col (endpt rg)),
        maxCol := max (col (start rg)) (col (endpt rg))\<rparr>"

text \<open>
  The constructor: both anchors at the given point, then \<^verbatim>\<open>_updateMinMax\<close>. The
  four bounds do not exist before that call assigns them; the record holds 0 there.
\<close>

definition new_Range :: "int \<Rightarrow> int \<Rightarrow> Range" where
  "new_Range r c =
     updateMinMax \<lparr>start = \<lparr>row = r, col = c\<rparr>, endpt = \<lparr>row = r, col = c\<rparr>,
                   minRow = 0, maxRow = 0, minCol = 0, maxCol = 0\<rparr>"

definition setStart :: "int \<Rightarrow> int \<Rightarrow> Range \<Rightarrow> Range" where
  "setStart r c rg = updateMinMax (rg\<lparr>start := \<lparr>row = r, col = c\<rparr>\<rparr>)"

definition setEnd :: "int \<Rightarrow> int \<Rightarrow> Range \<Rightarrow> Range" where
  "setEnd r c rg = updateMinMax (rg\<lparr>endpt := \<lparr>row = r, col = c\<rparr>\<rparr>)"

definition atTopLeft :: "Range \<Rightarrow> int \<Rightarrow> int \<Rightarrow> bool" where
  "atTopLeft rg r c = (r = minRow rg \<and> c = minCol rg)"

definition atBottomRight :: "Range \<Rightarrow> int \<Rightarrow> int \<Rightarrow> bool" where
  "atBottomRight rg r c = (r = maxRow rg \<and> c = maxCol rg)"

definition isInside :: "Range \<Rightarrow> int \<Rightarrow> int \<Rightarrow> bool" where
  "isInside rg r c = (minRow rg \<le> r \<and> r \<le> maxRow rg \<and> minCol rg \<le> c \<and> c \<le> maxCol rg)"

definition isStartingAt :: "Range \<Rightarrow> int \<Rightarrow> int \<Rightarrow> bool" where
  "isStartingAt rg r c = (row (start rg) = r \<and> col (start rg) = c)"

definition withinRow :: "Range \<Rightarrow> int \<Rightarrow> bool" where
  "withinRow rg r = (r \<ge> minRow rg \<and> r \<le> maxRow rg)"

definition withinColumn :: "Range \<Rightarrow> int \<Rightarrow> bool" where
  "withinColumn rg c = (c \<ge> minCol rg \<and> c \<le> maxCol rg)"

text \<open>A call of one of the two mutators of a Range, and a sequence of such calls.\<close>

datatype range_call = SetStart int int | SetEnd int int

fun call :: "Range \<Rightarrow> range_call \<Rightarrow> Range" where
  "call rg (SetStart r c) = setStart r c rg"
| "call rg (SetEnd r c) = setEnd r c rg"

definition calls :: "Range \<Rightarrow> range_call list \<Rightarrow> Range" where
  "calls rg cs = foldl call rg cs"

definition consistent :: "Range \<Rightarrow> bool" where
  "consistent rg =
     (minRow rg = min (row (start rg)) (row (endpt rg)) \<and>
      maxRow rg = max (row (start rg)) (row (endpt rg)) \<and>
      minCol rg = min (col (start rg)) (col (endpt rg)) \<and>
      maxCol rg = max (col (start rg)) (col (endpt rg)))"

subsection \<open>JavaScript arrays\<close>

text \<open>
  \<^verbatim>\<open>xs[i]\<close> for an integer \<open>i\<close>: the element, or \<^verbatim>\<open>undefined\<close> (here \<open>None\<close>)
  outside \<open>0 .. length - 1\<close>.
\<close>

definition elem_at :: "'a list \<Rightarrow> int \<Rightarrow> 'a option" where
  "elem_at xs i = (if 0 \<le> i \<and> i < int (length xs) then Some (xs ! nat i) else None)"

text \<open>
  \<^verbatim>\<open>xs.slice(b, e)\<close>: a negative index counts from the end of the array, and both
  indices are clamped to \<open>0 .. length\<close>. \<^verbatim>\<open>xs.slice(b)\<close> runs to the end.
\<close>

definition js_slice :: "'a list \<Rightarrow> int \<Rightarrow> int \<Rightarrow> 'a list" where
  "js_slice xs b e =
     (let n = int (length xs);
          k = (if b < 0 then max (n + b) 0 else min b n);
          f = (if e < 0 then max (n + e) 0 else min e n)
      in take (nat (f - k)) (drop (nat k) xs))"

definition js_slice_from :: "'a list \<Rightarrow> int \<Rightarrow> 'a list" where
  "js_slice_from xs b = js_slice xs b (int (length xs))"

text \<open>\<^verbatim>\<open>xs.findIndex(P)\<close>: the index of the first element satisfying \<open>P\<close>, or -1.\<close>

fun findIndex :: "('a \<Rightarrow> bool) \<Rightarrow> 'a list \<Rightarrow> int" where
  "findIndex P [] = - 1"
| "findIndex P (x # xs) =
     (if P x then 0 else (if findIndex P xs < 0 then - 1 else findIndex P xs + 1))"

subsection \<open>The grid the module is attached to\<close>

text \<open>
  The table, its row manager and its column manager are collaborators of the module and
  are not part of its source file. The module reads them through a handful of
  properties; the record below holds exactly those. The cell list of a column is the
  grid's own: nothing in the module says which rows have a cell in it, so it is a field
  of the record and not computed from the rows.

  A column object is compared by identity in the source (\<^verbatim>\<open>column === col\<close>); the
  model gives every column an \<open>ident\<close>, so that two columns of the same field are
  still different columns.
\<close>

record Column =
  ident :: nat
  field :: string

text \<open>
  An event target: a column header (\<^verbatim>\<open>element.type === "column"\<close>), or a cell with
  its \<^verbatim>\<open>row.position\<close> (counted from 1) and its \<^verbatim>\<open>column\<close>.
\<close>

datatype element = ColumnEl Column | CellEl int Column

record 'v Table =
  rowHeaderField :: string  \<comment> \<open>\<^verbatim>\<open>this.options("rowHeaderField")\<close>\<close>
  columns :: "Column list"  \<comment> \<open>\<^verbatim>\<open>table.columnManager.columns\<close>\<close>
  columnsByIndex :: "Column list"  \<comment> \<open>\<^verbatim>\<open>table.columnManager.columnsByIndex\<close>\<close>
  rows :: "(string \<rightharpoonup> 'v) list"
    \<comment> \<open>the data of the rows of the page, in the order of their positions:
        \<^verbatim>\<open>table.getRows()\<close> and \<^verbatim>\<open>rowManager.getRows()\<close>\<close>
  pageSize :: "int option"
    \<comment> \<open>\<^verbatim>\<open>table.getPageSize()\<close>; \<open>None\<close> when the table has no such function\<close>
  columnCells :: "Column \<Rightarrow> element list"
    \<comment> \<open>\<^verbatim>\<open>column.getCells()\<close>: the cells the grid holds for a column, in the grid's order\<close>

text \<open>
  Modelled from the spec: the column manager's \<^verbatim>\<open>findColumnIndex\<close> is missing from
  the source. Section 6 of the specification names a "column index lookup for a given
  column/header handle": the position of the column in \<^verbatim>\<open>columnsByIndex\<close>, and -1
  for a column that is not there.
\<close>

definition findColumnIndex :: "'v Table \<Rightarrow> Column \<Rightarrow> int" where
  "findColumnIndex t c = findIndex (\<lambda>k. c = k) (columnsByIndex t)"

text \<open>
  Modelled from the spec: the column manager's \<^verbatim>\<open>getColumns\<close> is missing from the
  source. Section 6 of the specification names an "enumeration of all columns": it
  returns \<^verbatim>\<open>columns\<close>.
\<close>

definition getColumns :: "'v Table \<Rightarrow> Column list" where
  "getColumns t = columns t"

text \<open>
  Modelled from the spec: the row manager's \<^verbatim>\<open>getRowFromPosition\<close> is missing from
  the source. Section 6 of the specification names a "cell lookup by (row, col)": the
  rows have the positions 1 to the number of rows, and a position without a row gives
  \<open>None\<close>. A row is handed around as its position.
\<close>

definition getRowFromPosition :: "'v Table \<Rightarrow> int \<Rightarrow> int option" where
  "getRowFromPosition t p = (if 1 \<le> p \<and> p \<le> int (length (rows t)) then Some p else None)"

text \<open>
  Modelled from the spec: \<^verbatim>\<open>getCells\<close> of a row is missing from the source. Section 6
  of the specification names a "cell lookup by (row, col)", and the module's own
  \<^verbatim>\<open>getCell(row, col)\<close> reads the cell of the column with index \<open>col + 1\<close> as
  \<^verbatim>\<open>getRowFromPosition(row + 1).getCells()[col + 1]\<close>: a row has one cell for each
  column of \<^verbatim>\<open>columnsByIndex\<close>, in that order.
\<close>

definition rowCells :: "'v Table \<Rightarrow> int \<Rightarrow> element list" where
  "rowCells t p = map (CellEl p) (columnsByIndex t)"

text \<open>The getter \<^verbatim>\<open>rowsPerPage\<close>.\<close>

definition rowsPerPage :: "'v Table \<Rightarrow> int" where
  "rowsPerPage t = (case pageSize t of Some n \<Rightarrow> n | None \<Rightarrow> int (length (rows t)))"

subsection \<open>The selection state\<close>

text \<open>
  The field \<^verbatim>\<open>selecting\<close> holds \<^verbatim>\<open>false\<close> or one of the strings \<^verbatim>\<open>"all"\<close>,
  \<^verbatim>\<open>"row"\<close>, \<^verbatim>\<open>"column"\<close>, \<^verbatim>\<open>"cell"\<close>.
\<close>

datatype mode = SelFalse | SelAll | SelRow | SelColumn | SelCell

record Spreadsheet =
  ranges :: "Range list"
  selecting :: mode

text \<open>The state the constructor leaves.\<close>

definition constructed :: Spreadsheet where
  "constructed = \<lparr>ranges = [new_Range 0 0], selecting = SelFalse\<rparr>"

text \<open>
  A \<^verbatim>\<open>TypeError\<close> is what JavaScript throws on reading a property of
  \<^verbatim>\<open>undefined\<close>. It is the only exception the modelled code can throw.
\<close>

datatype error = TypeError

definition getActiveRange :: "Spreadsheet \<Rightarrow> Range option" where
  "getActiveRange s = elem_at (ranges s) (int (length (ranges s)) - 1)"

text \<open>
  \<^verbatim>\<open>range.setStart(..)\<close> and \<^verbatim>\<open>range.setEnd(..)\<close> on the object that
  \<^verbatim>\<open>getActiveRange()\<close> returned: the Range is mutated in place, so the last element of
  \<^verbatim>\<open>ranges\<close> changes; on \<^verbatim>\<open>undefined\<close> the call throws.
\<close>

definition onActiveRange :: "(Range \<Rightarrow> Range) \<Rightarrow> Spreadsheet \<Rightarrow> error + Spreadsheet" where
  "onActiveRange f s =
     (case getActiveRange s of
        None \<Rightarrow> Inl TypeError
      | Some rg \<Rightarrow> Inr (s\<lparr>ranges := (ranges s)[length (ranges s) - 1 := f rg]\<rparr>))"

definition beginSelection :: "'v Table \<Rightarrow> element \<Rightarrow> Spreadsheet \<Rightarrow> error + Spreadsheet" where
  "beginSelection t el s =
     (case el of
        ColumnEl c \<Rightarrow> onActiveRange (setStart 0 (findColumnIndex t c - 1)) s
      | CellEl p c \<Rightarrow>
          (let r = p - 1; cl = findColumnIndex t c - 1 in
           if field c = rowHeaderField t then onActiveRange (setStart r 0) s
           else onActiveRange (setStart r cl) s))"

definition endSelection :: "'v Table \<Rightarrow> element \<Rightarrow> Spreadsheet \<Rightarrow> error + Spreadsheet" where
  "endSelection t el s =
     (case el of
        ColumnEl c \<Rightarrow>
          (if selecting s = SelColumn then
             onActiveRange (setEnd (rowsPerPage t - 1) (findColumnIndex t c - 1)) s
           else if selecting s = SelCell then
             onActiveRange (setEnd 0 (findColumnIndex t c - 1)) s
           else Inr s)
      | CellEl p c \<Rightarrow>
          (let r = p - 1; cl = findColumnIndex t c - 1;
               isRowHeader = (field c = rowHeaderField t) in
           if selecting s = SelRow then
             onActiveRange (setEnd r (int (length (getColumns t)) - 2)) s
           else if selecting s \<noteq> SelRow \<and> isRowHeader then onActiveRange (setEnd r 0) s
           else if selecting s = SelColumn then onActiveRange (setEnd (rowsPerPage t - 1) cl) s
           else onActiveRange (setEnd r cl) s))"

text \<open>
  An \<^verbatim>\<open>undefined\<close> element (the corner header finds no cell): reading
  \<^verbatim>\<open>element.type\<close> throws.
\<close>

definition beginSelection_opt :: "'v Table \<Rightarrow> element option \<Rightarrow> Spreadsheet \<Rightarrow> error + Spreadsheet" where
  "beginSelection_opt t x s = (case x of None \<Rightarrow> Inl TypeError | Some el \<Rightarrow> beginSelection t el s)"

definition endSelection_opt :: "'v Table \<Rightarrow> element option \<Rightarrow> Spreadsheet \<Rightarrow> error + Spreadsheet" where
  "endSelection_opt t x s = (case x of None \<Rightarrow> Inl TypeError | Some el \<Rightarrow> endSelection t el s)"

subsection \<open>The event handlers\<close>

text \<open>
  A handler assigns the fields of the module one after the other, so an exception in the
  middle of a handler leaves the assignments made before it. The outcome of a handler is
  the state it leaves, and the exception if it threw one.

  The handlers end with \<^verbatim>\<open>layoutElement()\<close>, which writes CSS classes and the overlay
  to the DOM and assigns neither \<^verbatim>\<open>ranges\<close> nor \<^verbatim>\<open>selecting\<close>; the model stops
  before it.
\<close>

datatype outcome = Done Spreadsheet | Threw error Spreadsheet

fun state_of :: "outcome \<Rightarrow> Spreadsheet" where
  "state_of (Done s) = s"
| "state_of (Threw e s) = s"

definition attempt :: "Spreadsheet \<Rightarrow> error + Spreadsheet \<Rightarrow> outcome" where
  "attempt s x = (case x of Inl e \<Rightarrow> Threw e s | Inr s' \<Rightarrow> Done s')"

record MouseEvent =
  shiftKey :: bool
  ctrlKey :: bool

text \<open>\<^verbatim>\<open>_select\<close>.\<close>

definition select :: "'v Table \<Rightarrow> MouseEvent \<Rightarrow> element \<Rightarrow> Spreadsheet \<Rightarrow> outcome" where
  "select t ev el s =
     (let s1 = s\<lparr>selecting :=
                  (case el of
                     ColumnEl c \<Rightarrow> SelColumn
                   | CellEl p c \<Rightarrow> if field c = rowHeaderField t then SelRow else SelCell)\<rparr>
      in
      if shiftKey ev then
        (let s2 = (if length (ranges s1) > 1
                   then s1\<lparr>ranges := js_slice_from (ranges s1) (- 1)\<rparr> else s1)
         in attempt s2 (endSelection t el s2))
      else if ctrlKey ev then
        (let s2 = s1\<lparr>ranges := ranges s1 @ [new_Range 0 0]\<rparr> in
         case beginSelection t el s2 of
           Inl e \<Rightarrow> Threw e s2
         | Inr s3 \<Rightarrow> attempt s3 (endSelection t el s3))
      else
        (let s2 = s1\<lparr>ranges := [new_Range 0 0]\<rparr> in
         case beginSelection t el s2 of
           Inl e \<Rightarrow> Threw e s2
         | Inr s3 \<Rightarrow> attempt s3 (endSelection t el s3)))"

text \<open>
  The two cells the corner header looks up:
  \<^verbatim>\<open>rowManager.getRowFromPosition(1).getCells()[1]\<close> and
  \<^verbatim>\<open>columnManager.columns.slice(-1)[0].getCells().slice(-1)[0]\<close>. Calling
  \<^verbatim>\<open>getCells\<close> on a missing row or column throws; a missing cell is \<^verbatim>\<open>undefined\<close>.
\<close>

definition topLeftCell :: "'v Table \<Rightarrow> error + element option" where
  "topLeftCell t =
     (case getRowFromPosition t 1 of
        None \<Rightarrow> Inl TypeError
      | Some p \<Rightarrow> Inr (elem_at (rowCells t p) 1))"

definition bottomRightCell :: "'v Table \<Rightarrow> error + element option" where
  "bottomRightCell t =
     (case elem_at (js_slice_from (columns t) (- 1)) 0 of
        None \<Rightarrow> Inl TypeError
      | Some c \<Rightarrow> Inr (elem_at (js_slice_from (columnCells t c) (- 1)) 0))"

definition handleColumnMouseDown :: "'v Table \<Rightarrow> MouseEvent \<Rightarrow> Column \<Rightarrow> Spreadsheet \<Rightarrow> outcome" where
  "handleColumnMouseDown t ev c s =
     (if field c = rowHeaderField t then
        (let s1 = s\<lparr>ranges := [new_Range 0 0], selecting := SelAll\<rparr> in
         case topLeftCell t of
           Inl e \<Rightarrow> Threw e s1
         | Inr topLeft \<Rightarrow>
            (case bottomRightCell t of
               Inl e \<Rightarrow> Threw e s1
             | Inr bottomRight \<Rightarrow>
                (case beginSelection_opt t topLeft s1 of
                   Inl e \<Rightarrow> Threw e s1
                 | Inr s2 \<Rightarrow> attempt s2 (endSelection_opt t bottomRight s2))))
      else select t ev (ColumnEl c) s)"

definition handleColumnMouseMove :: "'v Table \<Rightarrow> Column \<Rightarrow> Spreadsheet \<Rightarrow> outcome" where
  "handleColumnMouseMove t c s =
     (if field c = rowHeaderField t then Done s
      else if selecting s = SelFalse then Done s
      else attempt s (endSelection t (ColumnEl c) s))"

definition handleCellMouseDown :: "'v Table \<Rightarrow> MouseEvent \<Rightarrow> int \<Rightarrow> Column \<Rightarrow> Spreadsheet \<Rightarrow> outcome" where
  "handleCellMouseDown t ev p c s = select t ev (CellEl p c) s"

definition handleCellMouseMove :: "'v Table \<Rightarrow> int \<Rightarrow> Column \<Rightarrow> Spreadsheet \<Rightarrow> outcome" where
  "handleCellMouseMove t p c s =
     (if selecting s = SelFalse then Done s
      else attempt s (endSelection t (CellEl p c) s))"

definition handleMouseUp :: "Spreadsheet \<Rightarrow> Spreadsheet" where
  "handleMouseUp s = s\<lparr>selecting := SelFalse\<rparr>"

definition handlePageChanged :: "Spreadsheet \<Rightarrow> Spreadsheet" where
  "handlePageChanged s = s\<lparr>ranges := [new_Range 0 0]\<rparr>"

text \<open>The events the module subscribes to, and the state after a sequence of them.\<close>

datatype event =
    ColumnMouseDown MouseEvent Column
  | ColumnMouseMove Column
  | CellMouseDown MouseEvent int Column
  | CellMouseMove int Column
  | MouseUp
  | PageChanged

fun handle :: "'v Table \<Rightarrow> event \<Rightarrow> Spreadsheet \<Rightarrow> outcome" where
  "handle t (ColumnMouseDown ev c) s = handleColumnMouseDown t ev c s"
| "handle t (ColumnMouseMove c) s = handleColumnMouseMove t c s"
| "handle t (CellMouseDown ev p c) s = handleCellMouseDown t ev p c s"
| "handle t (CellMouseMove p c) s = handleCellMouseMove t p c s"
| "handle t MouseUp s = Done (handleMouseUp s)"
| "handle t PageChanged s = Done (handlePageChanged s)"

definition run :: "'v Table \<Rightarrow> event list \<Rightarrow> Spreadsheet \<Rightarrow> Spreadsheet" where
  "run t evs s = foldl (\<lambda>s' ev. state_of (handle t ev s')) s evs"

subsection \<open>The header predicates\<close>

definition selectingAllColumnsOfRow :: "'v Table \<Rightarrow> Spreadsheet \<Rightarrow> int \<Rightarrow> bool" where
  "selectingAllColumnsOfRow t s r =
     (if selecting s = SelAll then True
      else list_ex
        (\<lambda>rg. selecting s = SelRow \<and> col (start rg) = 0 \<and>
              col (endpt rg) = int (length (columns t)) - 2 \<and> withinRow rg r)
        (ranges s))"

definition selectingAllRowsOfColumn :: "'v Table \<Rightarrow> Spreadsheet \<Rightarrow> int \<Rightarrow> bool" where
  "selectingAllRowsOfColumn t s c =
     (if selecting s = SelAll then True
      else list_ex
        (\<lambda>rg. selecting s = SelColumn \<and> row (start rg) = 0 \<and>
              row (endpt rg) = rowsPerPage t - 1 \<and> withinColumn rg c)
        (ranges s))"

subsection \<open>getSelectedData\<close>

text \<open>
  A record of the result is a JavaScript object: a map from a field to the value the row
  has there, which is \<^verbatim>\<open>undefined\<close> (here \<open>None\<close>) when the row has no such
  field. \<^verbatim>\<open>columns.forEach\<close> assigns the keys in the order of the columns.
\<close>

definition pickFields :: "Column list \<Rightarrow> (string \<rightharpoonup> 'v) \<Rightarrow> (string \<rightharpoonup> 'v option)" where
  "pickFields cols rw = foldl (\<lambda>result c. result(field c \<mapsto> rw (field c))) Map.empty cols"

text \<open>
  The loop \<^verbatim>\<open>for (var r = range.minRow; r <= range.maxRow; r++)\<close>; \<^verbatim>\<open>rows[r]\<close>
  is \<^verbatim>\<open>undefined\<close> outside the array, and \<^verbatim>\<open>getData()\<close> throws there.
\<close>

function collectRows ::
  "(string \<rightharpoonup> 'v) list \<Rightarrow> Column list \<Rightarrow> int \<Rightarrow> int \<Rightarrow> (string \<rightharpoonup> 'v option) list
     \<Rightarrow> error + (string \<rightharpoonup> 'v option) list" where
  "collectRows rws cols r mx acc =
     (if r \<le> mx then
        (case elem_at rws r of
           None \<Rightarrow> Inl TypeError
         | Some rw \<Rightarrow> collectRows rws cols (r + 1) mx (acc @ [pickFields cols rw]))
      else Inr acc)"
  by pat_completeness auto
termination
  by (relation "measure (\<lambda>(rws, cols, r, mx, acc). nat (mx + 1 - r))") auto

record 'v SelectedData =
  data :: "(string \<rightharpoonup> 'v option) list"
  rowCount :: int
  columnCount :: int

definition getSelectedData :: "'v Table \<Rightarrow> Spreadsheet \<Rightarrow> Range option \<Rightarrow> error + 'v SelectedData" where
  "getSelectedData t s range_arg =
     (case (case range_arg of None \<Rightarrow> getActiveRange s | Some rg \<Rightarrow> Some rg) of
        None \<Rightarrow> Inl TypeError
      | Some rg \<Rightarrow>
          (let cols = js_slice (columnsByIndex t) (minCol rg + 1) (maxCol rg + 2) in
           case collectRows (rows t) cols (minRow rg) (maxRow rg) [] of
             Inl e \<Rightarrow> Inl e
           | Inr d \<Rightarrow> Inr \<lparr>data = d, rowCount = int (length d),
                          columnCount = int (length cols)\<rparr>))"

subsection \<open>initialize\<close>

text \<open>
  What \<^verbatim>\<open>initialize\<close> reads and writes: the module registry of the table, the column
  definitions in \<^verbatim>\<open>table.options.columns\<close> (objects, here maps from a property name
  to its value), the event subscriptions of the module, the listeners on the document,
  the console, the CSS classes of the table element and the overlay element.
\<close>

datatype jsval = JStr string | JBool bool

record Host =
  selectRow :: bool  \<comment> \<open>\<^verbatim>\<open>table.modules.selectRow\<close> is set\<close>
  rowHeaderFieldOption :: string  \<comment> \<open>\<^verbatim>\<open>this.options("rowHeaderField")\<close>\<close>
  optionColumns :: "(string \<rightharpoonup> jsval) list"
  subscriptions :: "string list"
  documentListeners :: "string list"
  consoleErrors :: "string list"
  tableClasses :: "string list"
  overlayAppended :: bool

definition rowHeaderDefinition :: "string \<Rightarrow> (string \<rightharpoonup> jsval)" where
  "rowHeaderDefinition f =
     [''title'' \<mapsto> JStr '''', ''field'' \<mapsto> JStr f, ''headerSort'' \<mapsto> JBool False,
      ''resizable'' \<mapsto> JBool True, ''frozen'' \<mapsto> JBool True, ''editable'' \<mapsto> JBool False,
      ''cssClass'' \<mapsto> JStr ''tabulator-row-header'']"

definition initializeTable :: "Host \<Rightarrow> Host" where
  "initializeTable h =
     h\<lparr>optionColumns :=
         rowHeaderDefinition (rowHeaderFieldOption h) #
         map (\<lambda>column. column(''headerSort'' \<mapsto> JBool False)) (optionColumns h),
       tableClasses :=
         (if ''tabulator-spreadsheet'' \<in> set (tableClasses h) then tableClasses h
          else tableClasses h @ [''tabulator-spreadsheet'']),
       overlayAppended := True\<rparr>"

definition selectRowClash :: string where
  "selectRowClash =
     ''Spreadsheet Error - Cannot use both SelectRow and Spreadsheet modules at the same time.''"

definition initialize :: "Host \<Rightarrow> Host" where
  "initialize h =
     (if selectRow h then h\<lparr>consoleErrors := consoleErrors h @ [selectRowClash]\<rparr>
      else
        initializeTable
          (h\<lparr>subscriptions := subscriptions h @
               [''column-mousedown'', ''column-mousemove'', ''cell-mousedown'',
                ''cell-mousemove'', ''cell-rendered'', ''page-changed'', ''table-layout'',
                ''table-destroy''],
             documentListeners := documentListeners h @ [''mouseup'']\<rparr>))"

subsection \<open>Event sequences\<close>

text \<open>The pointer-move events.\<close>

fun is_move :: "event \<Rightarrow> bool" where
  "is_move (CellMouseMove p c) = True"
| "is_move (ColumnMouseMove c) = True"
| "is_move ev = False"

text \<open>
  The states of a drag that began on the row header of row \<open>r0\<close>: the mode is
  \<^verbatim>\<open>"row"\<close> and the only range starts at \<open>(r0, 0)\<close>.
\<close>

definition row_drag :: "int \<Rightarrow> Spreadsheet \<Rightarrow> bool" where
  "row_drag r0 s = (selecting s = SelRow \<and>
     (case ranges s of [rg] \<Rightarrow> start rg = \<lparr>row = r0, col = 0\<rparr> | _ \<Rightarrow> False))"

subsection \<open>A grid of six rows and two data columns\<close>

definition hdr :: Column where "hdr = \<lparr>ident = 0, field = ''--row-position''\<rparr>"
definition colA :: Column where "colA = \<lparr>ident = 1, field = ''a''\<rparr>"
definition colB :: Column where "colB = \<lparr>ident = 2, field = ''b''\<rparr>"

definition gridRow :: "int \<Rightarrow> (string \<rightharpoonup> int)" where
  "gridRow n = [''a'' \<mapsto> n, ''b'' \<mapsto> 10 * n]"

definition grid :: "int Table" where
  "grid = \<lparr>rowHeaderField = ''--row-position'', columns = [hdr, colA, colB],
           columnsByIndex = [hdr, colA, colB],
           rows = [gridRow 0, gridRow 1, gridRow 2, gridRow 3, gridRow 4, gridRow 5],
           pageSize = None,
           columnCells = (\<lambda>c. [CellEl 1 c, CellEl 2 c, CellEl 3 c, CellEl 4 c, CellEl 5 c,
                                CellEl 6 c])\<rparr>"

text \<open>The same grid when its columns hold the cells of the first four rows only.\<close>

definition shortColumns :: "int Table" where
  "shortColumns =
     grid\<lparr>columnCells := (\<lambda>c. [CellEl 1 c, CellEl 2 c, CellEl 3 c, CellEl 4 c])\<rparr>"

text \<open>A page of size six that shows two rows, as the last page of a table does.\<close>

definition shortPage :: "int Table" where
  "shortPage =
     grid\<lparr>rows := [gridRow 0, gridRow 1], pageSize := Some 6,
          columnCells := (\<lambda>c. [CellEl 1 c, CellEl 2 c])\<rparr>"

definition plain :: MouseEvent where
  "plain = \<lparr>shiftKey = False, ctrlKey = False\<rparr>"

definition shift :: MouseEvent where
  "shift = \<lparr>shiftKey = True, ctrlKey = False\<rparr>"

text \<open>A host with the SelectRow module, and the same host without it.\<close>

definition hostClash :: Host where
  "hostClash = \<lparr>selectRow = True, rowHeaderFieldOption = ''--row-position'',
                 optionColumns = [[''title'' \<mapsto> JStr ''A'', ''field'' \<mapsto> JStr ''a'']],
                 subscriptions = [], documentListeners = [], consoleErrors = [],
                 tableClasses = [''tabulator''], overlayAppended = False\<rparr>"

definition hostFree :: Host where
  "hostFree = hostClash\<lparr>selectRow := False\<rparr>"

section \<open>Properties\<close>

text \<open>The definitions that evaluate the model on a concrete input.\<close>

lemmas grid_defs = grid_def hdr_def colA_def colB_def gridRow_def plain_def shift_def constructed_def

lemmas model_defs =
  run_def handleColumnMouseDown_def handleColumnMouseMove_def handleCellMouseDown_def
  handleCellMouseMove_def handleMouseUp_def handlePageChanged_def select_def
  beginSelection_def endSelection_def onActiveRange_def getActiveRange_def attempt_def
  elem_at_def js_slice_from_def js_slice_def findColumnIndex_def getColumns_def rowsPerPage_def
  setStart_def setEnd_def new_Range_def updateMinMax_def Let_def

subsection \<open>Range\<close>

lemma updateMinMax_fields:
  "start (updateMinMax rg) = start rg"
  "endpt (updateMinMax rg) = endpt rg"
  "minRow (updateMinMax rg) = min (row (start rg)) (row (endpt rg))"
  "maxRow (updateMinMax rg) = max (row (start rg)) (row (endpt rg))"
  "minCol (updateMinMax rg) = min (col (start rg)) (col (endpt rg))"
  "maxCol (updateMinMax rg) = max (col (start rg)) (col (endpt rg))"
  by (simp_all add: updateMinMax_def)

lemma consistent_updateMinMax: "consistent (updateMinMax rg)"
  by (simp add: consistent_def updateMinMax_fields)

lemma consistent_new_Range: "consistent (new_Range r c)"
  by (simp add: new_Range_def consistent_updateMinMax)

lemma consistent_call: "consistent (call rg k)"
  by (cases k) (simp_all add: setStart_def setEnd_def consistent_updateMinMax)

lemma consistent_calls: "consistent rg \<Longrightarrow> consistent (calls rg cs)"
  unfolding calls_def
  by (induction cs arbitrary: rg) (simp_all add: consistent_call)

lemma setStart_fields:
  "start (setStart r c rg) = \<lparr>row = r, col = c\<rparr>"
  "endpt (setStart r c rg) = endpt rg"
  "minRow (setStart r c rg) = min r (row (endpt rg))"
  "maxRow (setStart r c rg) = max r (row (endpt rg))"
  "minCol (setStart r c rg) = min c (col (endpt rg))"
  "maxCol (setStart r c rg) = max c (col (endpt rg))"
  by (simp_all add: setStart_def updateMinMax_fields)

lemma setEnd_fields:
  "start (setEnd r c rg) = start rg"
  "endpt (setEnd r c rg) = \<lparr>row = r, col = c\<rparr>"
  "minRow (setEnd r c rg) = min (row (start rg)) r"
  "maxRow (setEnd r c rg) = max (row (start rg)) r"
  "minCol (setEnd r c rg) = min (col (start rg)) c"
  "maxCol (setEnd r c rg) = max (col (start rg)) c"
  by (simp_all add: setEnd_def updateMinMax_fields)

lemma new_Range_fields:
  "start (new_Range r c) = \<lparr>row = r, col = c\<rparr>"
  "endpt (new_Range r c) = \<lparr>row = r, col = c\<rparr>"
  "minRow (new_Range r c) = r" "maxRow (new_Range r c) = r"
  "minCol (new_Range r c) = c" "maxCol (new_Range r c) = c"
  by (simp_all add: new_Range_def updateMinMax_fields)

text \<open>
  Claim C6. Whatever sequence of \<^verbatim>\<open>setStart\<close> and \<^verbatim>\<open>setEnd\<close> calls a Range has gone
  through since its construction, \<open>minRow\<close> and \<open>maxRow\<close> are the minimum and the
  maximum of the rows of its two anchors, \<open>minCol\<close> and \<open>maxCol\<close> those of the
  columns, so \<open>minRow \<le> maxRow\<close> and \<open>minCol \<le> maxCol\<close> whichever anchor is larger; and
  after \<^verbatim>\<open>setStart(r, c); setEnd(r, c)\<close> the four bounds are \<open>r\<close>, \<open>r\<close>, \<open>c\<close>, \<open>c\<close>
  and \<^verbatim>\<open>isInside(r, c)\<close> is true.
\<close>

theorem range_bounds_follow_anchors:
  fixes r0 c0 r c :: int and cs :: "range_call list"
  defines "rg \<equiv> calls (new_Range r0 c0) cs"
  defines "pt \<equiv> setEnd r c (setStart r c rg)"
  shows "minRow rg = min (row (start rg)) (row (endpt rg)) \<and>
         maxRow rg = max (row (start rg)) (row (endpt rg)) \<and>
         minCol rg = min (col (start rg)) (col (endpt rg)) \<and>
         maxCol rg = max (col (start rg)) (col (endpt rg)) \<and>
         minRow rg \<le> maxRow rg \<and> minCol rg \<le> maxCol rg \<and>
         minRow pt = r \<and> maxRow pt = r \<and> minCol pt = c \<and> maxCol pt = c \<and>
         isInside pt r c"
proof -
  have "consistent rg"
    unfolding rg_def by (rule consistent_calls) (rule consistent_new_Range)
  then have bounds:
    "minRow rg = min (row (start rg)) (row (endpt rg))"
    "maxRow rg = max (row (start rg)) (row (endpt rg))"
    "minCol rg = min (col (start rg)) (col (endpt rg))"
    "maxCol rg = max (col (start rg)) (col (endpt rg))"
    by (simp_all add: consistent_def)
  have ordered: "minRow rg \<le> maxRow rg" "minCol rg \<le> maxCol rg"
    unfolding bounds by linarith+
  have point: "minRow pt = r" "maxRow pt = r" "minCol pt = c" "maxCol pt = c"
    unfolding pt_def by (simp_all add: setEnd_fields setStart_fields)
  then have "isInside pt r c"
    by (simp add: isInside_def)
  with bounds ordered point show ?thesis
    by simp
qed

subsection \<open>The active range\<close>

lemma list_update_last: "xs \<noteq> [] \<Longrightarrow> xs[length xs - Suc 0 := x] = butlast xs @ [x]"
  by (cases xs rule: rev_cases) simp_all

lemma getActiveRange_last: "ranges s \<noteq> [] \<Longrightarrow> getActiveRange s = Some (last (ranges s))"
  by (simp add: getActiveRange_def elem_at_def last_conv_nth nat_diff_distrib')

lemma getActiveRange_empty: "ranges s = [] \<Longrightarrow> getActiveRange s = None"
  by (simp add: getActiveRange_def elem_at_def)

lemma onActiveRange_nonempty:
  "ranges s \<noteq> [] \<Longrightarrow>
   onActiveRange f s = Inr (s\<lparr>ranges := butlast (ranges s) @ [f (last (ranges s))]\<rparr>)"
  by (simp add: onActiveRange_def getActiveRange_last list_update_last)

lemma onActiveRange_empty: "ranges s = [] \<Longrightarrow> onActiveRange f s = Inl TypeError"
  by (simp add: onActiveRange_def getActiveRange_empty)

subsection \<open>Extending in column mode\<close>

text \<open>
  Claim C1, as the code has it. In the mode \<^verbatim>\<open>"column"\<close>, on a page that shows as many
  rows as \<^verbatim>\<open>rowsPerPage\<close> returns, \<^verbatim>\<open>endSelection\<close> on a column header, or on a cell
  that is not in the row-header column, sets the end anchor of the active range to
  \<open>(lastRow, c)\<close>, where \<open>c\<close> is the index of the target's column minus one and
  \<open>lastRow\<close> is the number of rows of the page minus one. On a cell of the row-header
  column at row \<open>p - 1\<close> the branch for row headers comes first, and the end anchor
  becomes \<open>(p - 1, 0)\<close>, on any page. The start anchor and the other ranges stay as they
  are.
\<close>

theorem endSelection_in_column_mode:
  fixes t :: "'v Table"
  assumes "selecting s = SelColumn" and "ranges s \<noteq> []"
  defines "lastRow \<equiv> int (length (rows t)) - 1"
  defines "ended \<equiv> \<lambda>r k. s\<lparr>ranges := butlast (ranges s) @ [setEnd r k (last (ranges s))]\<rparr>"
  shows "(rowsPerPage t = int (length (rows t)) \<longrightarrow>
            endSelection t (ColumnEl c) s = Inr (ended lastRow (findColumnIndex t c - 1))) \<and>
         (rowsPerPage t = int (length (rows t)) \<and> field c \<noteq> rowHeaderField t \<longrightarrow>
            endSelection t (CellEl p c) s = Inr (ended lastRow (findColumnIndex t c - 1))) \<and>
         (field c = rowHeaderField t \<longrightarrow>
            endSelection t (CellEl p c) s = Inr (ended (p - 1) 0)) \<and>
         map_option endpt (getActiveRange (ended r k)) = Some \<lparr>row = r, col = k\<rparr>"
  using assms(1,2) unfolding lastRow_def ended_def
  by (simp add: endSelection_def onActiveRange_nonempty getActiveRange_last setEnd_fields)

text \<open>
  On the grid of six rows: after a pointer-down on the header of column \<open>b\<close>, an extend
  to the header of column \<open>a\<close> or to a cell of column \<open>a\<close> ends the range at
  \<open>(5, 0)\<close>, an extend to the row-header cell of row 2 at \<open>(2, 0)\<close>.
\<close>

theorem endSelection_in_column_mode_witness:
  "endSelection grid (ColumnEl colA) (run grid [ColumnMouseDown plain colB] constructed) =
     Inr \<lparr>ranges = [\<lparr>start = \<lparr>row = 0, col = 1\<rparr>, endpt = \<lparr>row = 5, col = 0\<rparr>,
                     minRow = 0, maxRow = 5, minCol = 0, maxCol = 1\<rparr>],
          selecting = SelColumn\<rparr> \<and>
   endSelection grid (CellEl 3 colA) (run grid [ColumnMouseDown plain colB] constructed) =
     Inr \<lparr>ranges = [\<lparr>start = \<lparr>row = 0, col = 1\<rparr>, endpt = \<lparr>row = 5, col = 0\<rparr>,
                     minRow = 0, maxRow = 5, minCol = 0, maxCol = 1\<rparr>],
          selecting = SelColumn\<rparr> \<and>
   endSelection grid (CellEl 3 hdr) (run grid [ColumnMouseDown plain colB] constructed) =
     Inr \<lparr>ranges = [\<lparr>start = \<lparr>row = 0, col = 1\<rparr>, endpt = \<lparr>row = 2, col = 0\<rparr>,
                     minRow = 0, maxRow = 2, minCol = 0, maxCol = 1\<rparr>],
          selecting = SelColumn\<rparr>"
  using endSelection_in_column_mode
          [where s = "run grid [ColumnMouseDown plain colB] constructed" and t = grid
             and c = colA and p = 3 and r = 0 and k = 0]
        endSelection_in_column_mode
          [where s = "run grid [ColumnMouseDown plain colB] constructed" and t = grid
             and c = hdr and p = 3 and r = 0 and k = 0]
  by (simp add: grid_defs model_defs)

text \<open>
  The claim as it is written fails in two places. For every kind of target: a drag that
  began on the header of column \<open>b\<close> and moves over the row-header cell of row 1 ends the
  range at \<open>(1, 0)\<close>, not at \<open>(lastRow, c) = (5, -1)\<close>. For \<open>lastRow\<close>: on a page of
  size six that shows two rows, the same drag moving over a cell of column \<open>a\<close> ends the
  range at \<open>(5, 0)\<close>, on a row that is not there, and not at \<open>(lastRow, c) = (1, 0)\<close>.
\<close>

theorem column_drag_onto_row_header:
  "selecting (run grid [ColumnMouseDown plain colB] constructed) = SelColumn \<and>
   rowsPerPage grid - 1 = 5 \<and> findColumnIndex grid hdr - 1 = - 1 \<and>
   map_option endpt (getActiveRange
     (run grid [ColumnMouseDown plain colB, CellMouseMove 2 hdr] constructed)) =
     Some \<lparr>row = 1, col = 0\<rparr> \<and>
   map_option endpt (getActiveRange
     (run grid [ColumnMouseDown plain colB, CellMouseMove 2 hdr] constructed)) \<noteq>
     Some \<lparr>row = rowsPerPage grid - 1, col = findColumnIndex grid hdr - 1\<rparr> \<and>
   selecting (run shortPage [ColumnMouseDown plain colB] constructed) = SelColumn \<and>
   int (length (rows shortPage)) - 1 = 1 \<and> findColumnIndex shortPage colA - 1 = 0 \<and>
   getRowFromPosition shortPage 6 = None \<and>
   map_option endpt (getActiveRange
     (run shortPage [ColumnMouseDown plain colB, CellMouseMove 2 colA] constructed)) =
     Some \<lparr>row = 5, col = 0\<rparr> \<and>
   map_option endpt (getActiveRange
     (run shortPage [ColumnMouseDown plain colB, CellMouseMove 2 colA] constructed)) \<noteq>
     Some \<lparr>row = int (length (rows shortPage)) - 1, col = findColumnIndex shortPage colA - 1\<rparr>"
  by (simp add: shortPage_def grid_defs model_defs getRowFromPosition_def)

subsection \<open>Page change\<close>

text \<open>
  Claim C2, as the code has it. \<^verbatim>\<open>handlePageChanged\<close> replaces \<^verbatim>\<open>ranges\<close> with a
  single fresh Range whose two anchors are \<open>(0, 0)\<close>, in every state; it does not assign
  \<^verbatim>\<open>selecting\<close>, so the mode, and with it a drag in progress, stays as it was.
\<close>

theorem page_change_keeps_mode:
  "ranges (handlePageChanged s) = [new_Range 0 0] \<and>
   start (new_Range 0 0) = \<lparr>row = 0, col = 0\<rparr> \<and>
   endpt (new_Range 0 0) = \<lparr>row = 0, col = 0\<rparr> \<and>
   selecting (handlePageChanged s) = selecting s"
  by (simp add: handlePageChanged_def new_Range_fields)

text \<open>
  A page change in the middle of a drag over cells leaves the mode \<^verbatim>\<open>"cell"\<close>: the
  next pointer-move extends the fresh range.
\<close>

theorem page_change_mid_drag:
  "ranges (run grid [CellMouseDown plain 2 colA, CellMouseMove 4 colB, PageChanged] constructed) =
     [new_Range 0 0] \<and>
   selecting (run grid [CellMouseDown plain 2 colA, CellMouseMove 4 colB, PageChanged] constructed) =
     SelCell \<and>
   selecting (run grid [CellMouseDown plain 2 colA, CellMouseMove 4 colB, PageChanged] constructed) \<noteq>
     SelFalse \<and>
   map_option endpt (getActiveRange
     (run grid [CellMouseDown plain 2 colA, CellMouseMove 4 colB, PageChanged,
                CellMouseMove 3 colB] constructed)) = Some \<lparr>row = 2, col = 1\<rparr>"
  by (simp add: grid_defs model_defs)

subsection \<open>The header predicates when no drag is in progress\<close>

text \<open>
  Claim C10. \<^verbatim>\<open>handleMouseUp\<close> sets \<^verbatim>\<open>selecting\<close> to \<^verbatim>\<open>false\<close>, and whenever
  \<^verbatim>\<open>selecting\<close> is \<^verbatim>\<open>false\<close> both header predicates are false for every row and
  every column, whatever \<^verbatim>\<open>ranges\<close> holds.
\<close>

theorem idle_no_full_row_or_column:
  "selecting (handleMouseUp s) = SelFalse \<and>
   (selecting s = SelFalse \<longrightarrow>
      \<not> selectingAllColumnsOfRow t s r \<and> \<not> selectingAllRowsOfColumn t s k)"
  by (simp add: handleMouseUp_def selectingAllColumnsOfRow_def selectingAllRowsOfColumn_def list_ex_iff)

theorem idle_no_full_row_or_column_witness:
  "selecting (handleMouseUp (run grid [CellMouseDown plain 3 hdr, CellMouseMove 6 colB] constructed)) =
     SelFalse \<and>
   \<not> selectingAllColumnsOfRow grid
       (handleMouseUp (run grid [CellMouseDown plain 3 hdr, CellMouseMove 6 colB] constructed)) 3 \<and>
   \<not> selectingAllRowsOfColumn grid
       (handleMouseUp (run grid [CellMouseDown plain 3 hdr, CellMouseMove 6 colB] constructed)) 1"
  using idle_no_full_row_or_column
          [where s = "handleMouseUp (run grid [CellMouseDown plain 3 hdr, CellMouseMove 6 colB]
                        constructed)"
             and t = grid and r = 3 and k = 1]
  by (simp add: handleMouseUp_def)

subsection \<open>Shift-click\<close>

lemma js_slice_from_last: "xs \<noteq> [] \<Longrightarrow> js_slice_from xs (- 1) = [last xs]"
proof (cases xs rule: rev_cases)
  case Nil
  assume "xs \<noteq> []"
  with Nil show ?thesis by simp
next
  case (snoc ys y)
  then show ?thesis
    by (simp add: js_slice_from_def js_slice_def Let_def)
qed

text \<open>
  Claim C4. A pointer-down with the shift key on a cell \<open>B\<close> outside the row-header
  column, in a state whose active range starts at \<open>A\<close>: the list is cut to its last
  element, the start anchor stays \<open>A\<close>, the end anchor becomes \<open>B\<close>, and the one range
  that is left contains exactly the points of the rectangle with the corners \<open>A\<close> and
  \<open>B\<close>, borders included. \<open>B\<close> is \<open>(p - 1, findColumnIndex - 1)\<close> for the cell at
  position \<open>p\<close>.
\<close>

theorem shift_click_extends_from_anchor:
  fixes t :: "'v Table" and ev :: MouseEvent and p :: int and c :: Column and s :: Spreadsheet
  assumes "shiftKey ev" and "ranges s \<noteq> []" and "field c \<noteq> rowHeaderField t"
  defines "a \<equiv> start (last (ranges s))"
  defines "br \<equiv> p - 1" and "bc \<equiv> findColumnIndex t c - 1"
  defines "rg \<equiv> \<lparr>start = a, endpt = \<lparr>row = br, col = bc\<rparr>,
                 minRow = min (row a) br, maxRow = max (row a) br,
                 minCol = min (col a) bc, maxCol = max (col a) bc\<rparr>"
  shows "handleCellMouseDown t ev p c s = Done \<lparr>ranges = [rg], selecting = SelCell\<rparr> \<and>
         isInside rg x y =
           (min (row a) br \<le> x \<and> x \<le> max (row a) br \<and>
            min (col a) bc \<le> y \<and> y \<le> max (col a) bc)"
proof -
  let ?s1 = "s\<lparr>selecting := SelCell\<rparr>"
  let ?s2 = "if length (ranges ?s1) > 1
             then ?s1\<lparr>ranges := js_slice_from (ranges ?s1) (- 1)\<rparr> else ?s1"
  have one: "ranges ?s2 = [last (ranges s)]"
  proof (cases "length (ranges s) > 1")
    case True
    with assms(2) show ?thesis by (simp add: js_slice_from_last)
  next
    case False
    with assms(2) have "length (ranges s) = 1"
      by (cases "ranges s") simp_all
    then show ?thesis
      by (cases "ranges s") simp_all
  qed
  have mode: "selecting ?s2 = SelCell"
    by simp
  have "endSelection t (CellEl p c) ?s2 =
          Inr (?s2\<lparr>ranges := [setEnd br bc (last (ranges s))]\<rparr>)"
    using assms(3) one mode
    by (simp add: endSelection_def onActiveRange_nonempty br_def bc_def Let_def)
  moreover have "setEnd br bc (last (ranges s)) = rg"
    by (simp add: rg_def a_def setEnd_def updateMinMax_def)
  moreover have "?s2\<lparr>ranges := [rg]\<rparr> = \<lparr>ranges = [rg], selecting = SelCell\<rparr>"
    by simp
  ultimately have "handleCellMouseDown t ev p c s = Done \<lparr>ranges = [rg], selecting = SelCell\<rparr>"
    using assms(1,3)
    by (simp add: handleCellMouseDown_def select_def attempt_def Let_def)
  moreover have "isInside rg x y =
           (min (row a) br \<le> x \<and> x \<le> max (row a) br \<and>
            min (col a) bc \<le> y \<and> y \<le> max (col a) bc)"
    by (simp add: isInside_def rg_def)
  ultimately show ?thesis by simp
qed

theorem shift_click_extends_from_anchor_witness:
  "handleCellMouseDown grid shift 4 colB (run grid [CellMouseDown plain 2 colA] constructed) =
     Done \<lparr>ranges = [\<lparr>start = \<lparr>row = 1, col = 0\<rparr>, endpt = \<lparr>row = 3, col = 1\<rparr>,
                       minRow = 1, maxRow = 3, minCol = 0, maxCol = 1\<rparr>],
            selecting = SelCell\<rparr> \<and>
   isInside \<lparr>start = \<lparr>row = 1, col = 0\<rparr>, endpt = \<lparr>row = 3, col = 1\<rparr>,
             minRow = 1, maxRow = 3, minCol = 0, maxCol = 1\<rparr> 2 1"
  using shift_click_extends_from_anchor
          [where t = grid and ev = shift and p = 4 and c = colB and x = 2 and y = 1
             and s = "run grid [CellMouseDown plain 2 colA] constructed"]
  by (simp add: grid_defs model_defs)

subsection \<open>Initialization\<close>

text \<open>
  Claim C9. When the SelectRow module is on the table, \<^verbatim>\<open>initialize\<close> writes the error
  to the console and changes nothing else: no event is subscribed to, no listener is added
  to the document and the column definitions are as before. When the module is absent,
  \<^verbatim>\<open>initialize\<close> reports no error, subscribes to the eight events, listens for
  \<^verbatim>\<open>mouseup\<close> on the document, switches header sorting off in every column definition
  and puts the row-header column in front of them.
\<close>

theorem initialize_refuses_selectRow:
  "(selectRow h \<longrightarrow>
      initialize h = h\<lparr>consoleErrors := consoleErrors h @ [selectRowClash]\<rparr> \<and>
      subscriptions (initialize h) = subscriptions h \<and>
      documentListeners (initialize h) = documentListeners h \<and>
      optionColumns (initialize h) = optionColumns h) \<and>
   (\<not> selectRow h \<longrightarrow>
      consoleErrors (initialize h) = consoleErrors h \<and>
      subscriptions (initialize h) = subscriptions h @
        [''column-mousedown'', ''column-mousemove'', ''cell-mousedown'',
         ''cell-mousemove'', ''cell-rendered'', ''page-changed'', ''table-layout'',
         ''table-destroy''] \<and>
      documentListeners (initialize h) = documentListeners h @ [''mouseup''] \<and>
      optionColumns (initialize h) =
        rowHeaderDefinition (rowHeaderFieldOption h) #
        map (\<lambda>column. column(''headerSort'' \<mapsto> JBool False)) (optionColumns h))"
  by (simp add: initialize_def initializeTable_def)

theorem initialize_refuses_selectRow_witness:
  "consoleErrors (initialize hostClash) = [selectRowClash] \<and>
   subscriptions (initialize hostClash) = [] \<and>
   documentListeners (initialize hostClash) = [] \<and>
   optionColumns (initialize hostClash) = optionColumns hostClash \<and>
   consoleErrors (initialize hostFree) = [] \<and>
   length (subscriptions (initialize hostFree)) = 8 \<and>
   documentListeners (initialize hostFree) = [''mouseup''] \<and>
   length (optionColumns (initialize hostFree)) = 2 \<and>
   map (\<lambda>d. d ''headerSort'') (optionColumns (initialize hostFree)) =
     [Some (JBool False), Some (JBool False)]"
  using initialize_refuses_selectRow [of hostClash] initialize_refuses_selectRow [of hostFree]
  by (simp add: hostClash_def hostFree_def rowHeaderDefinition_def)

subsection \<open>The list of ranges is never empty\<close>

lemma onActiveRange_length:
  "onActiveRange f s = Inr s' \<Longrightarrow> length (ranges s') = length (ranges s)"
  by (auto simp: onActiveRange_def split: option.splits)

lemma beginSelection_length:
  "beginSelection t el s = Inr s' \<Longrightarrow> length (ranges s') = length (ranges s)"
  by (cases el) (auto simp: beginSelection_def Let_def dest: onActiveRange_length split: if_splits)

lemma endSelection_length:
  "endSelection t el s = Inr s' \<Longrightarrow> length (ranges s') = length (ranges s)"
  by (cases el) (auto simp: endSelection_def Let_def dest: onActiveRange_length split: if_splits)

lemma attempt_endSelection_nonempty:
  "ranges s \<noteq> [] \<Longrightarrow> ranges (state_of (attempt s (endSelection t el s))) \<noteq> []"
  by (cases "endSelection t el s") (auto simp: attempt_def dest: endSelection_length)

lemma begin_then_end_nonempty:
  assumes "ranges s \<noteq> []"
  shows "ranges (state_of (case beginSelection t el s of
                             Inl e \<Rightarrow> Threw e s
                           | Inr s3 \<Rightarrow> attempt s3 (endSelection t el' s3))) \<noteq> []"
proof (cases "beginSelection t el s")
  case (Inl e)
  with assms show ?thesis by simp
next
  case (Inr s3)
  with assms have "ranges s3 \<noteq> []"
    by (auto dest: beginSelection_length)
  with Inr show ?thesis
    by (simp add: attempt_endSelection_nonempty)
qed

lemma select_nonempty:
  assumes "ranges s \<noteq> []"
  shows "ranges (state_of (select t ev el s)) \<noteq> []"
proof -
  let ?s1 = "s\<lparr>selecting :=
                  (case el of
                     ColumnEl c \<Rightarrow> SelColumn
                   | CellEl p c \<Rightarrow> if field c = rowHeaderField t then SelRow else SelCell)\<rparr>"
  let ?s2 = "if length (ranges ?s1) > 1
             then ?s1\<lparr>ranges := js_slice_from (ranges ?s1) (- 1)\<rparr> else ?s1"
  have "ranges ?s2 \<noteq> []"
    using assms by (simp add: js_slice_from_last)
  then have shift: "ranges (state_of (attempt ?s2 (endSelection t el ?s2))) \<noteq> []"
    by (rule attempt_endSelection_nonempty)
  have ctrl: "ranges (state_of (case beginSelection t el (?s1\<lparr>ranges := ranges ?s1 @ [new_Range 0 0]\<rparr>) of
                             Inl e \<Rightarrow> Threw e (?s1\<lparr>ranges := ranges ?s1 @ [new_Range 0 0]\<rparr>)
                           | Inr s3 \<Rightarrow> attempt s3 (endSelection t el s3))) \<noteq> []"
    by (rule begin_then_end_nonempty) simp
  have plain: "ranges (state_of (case beginSelection t el (?s1\<lparr>ranges := [new_Range 0 0]\<rparr>) of
                             Inl e \<Rightarrow> Threw e (?s1\<lparr>ranges := [new_Range 0 0]\<rparr>)
                           | Inr s3 \<Rightarrow> attempt s3 (endSelection t el s3))) \<noteq> []"
    by (rule begin_then_end_nonempty) simp
  show ?thesis
    unfolding select_def Let_def using shift ctrl plain by presburger
qed

lemma corner_nonempty:
  assumes "field c = rowHeaderField t"
  shows "ranges (state_of (handleColumnMouseDown t ev c s)) \<noteq> []"
proof -
  let ?s1 = "s\<lparr>ranges := [new_Range 0 0], selecting := SelAll\<rparr>"
  have s1: "ranges ?s1 \<noteq> []" by simp
  show ?thesis
  proof (cases "topLeftCell t")
    case (Inl e)
    with assms show ?thesis by (simp add: handleColumnMouseDown_def)
  next
    case topLeft: (Inr a)
    show ?thesis
    proof (cases "bottomRightCell t")
      case (Inl e)
      with assms topLeft show ?thesis by (simp add: handleColumnMouseDown_def)
    next
      case bottomRight: (Inr b)
      show ?thesis
      proof (cases "beginSelection_opt t a ?s1")
        case (Inl e)
        with assms topLeft bottomRight show ?thesis by (simp add: handleColumnMouseDown_def)
      next
        case (Inr s2)
        then have s2: "ranges s2 \<noteq> []"
          by (cases a) (auto simp: beginSelection_opt_def dest: beginSelection_length)
        have "ranges (state_of (attempt s2 (endSelection_opt t b s2))) \<noteq> []"
        proof (cases b)
          case None
          with s2 show ?thesis by (simp add: endSelection_opt_def attempt_def)
        next
          case (Some el)
          with s2 show ?thesis by (simp add: endSelection_opt_def attempt_endSelection_nonempty)
        qed
        with assms topLeft bottomRight Inr show ?thesis
          by (simp add: handleColumnMouseDown_def)
      qed
    qed
  qed
qed

lemma handle_nonempty:
  assumes "ranges s \<noteq> []"
  shows "ranges (state_of (handle t ev s)) \<noteq> []"
proof (cases ev)
  case (ColumnMouseDown me c)
  show ?thesis
  proof (cases "field c = rowHeaderField t")
    case True
    with ColumnMouseDown show ?thesis by (simp add: corner_nonempty)
  next
    case False
    with ColumnMouseDown assms show ?thesis
      by (simp add: handleColumnMouseDown_def select_nonempty)
  qed
next
  case (ColumnMouseMove c)
  with assms show ?thesis
    by (simp add: handleColumnMouseMove_def attempt_endSelection_nonempty)
next
  case (CellMouseDown me p c)
  with assms show ?thesis
    by (simp add: handleCellMouseDown_def select_nonempty)
next
  case (CellMouseMove p c)
  with assms show ?thesis
    by (simp add: handleCellMouseMove_def attempt_endSelection_nonempty)
next
  case MouseUp
  with assms show ?thesis by (simp add: handleMouseUp_def)
next
  case PageChanged
  then show ?thesis by (simp add: handlePageChanged_def)
qed

lemma run_nonempty: "ranges s \<noteq> [] \<Longrightarrow> ranges (run t evs s) \<noteq> []"
  unfolding run_def
  by (induction evs arbitrary: s) (simp_all add: handle_nonempty)

text \<open>
  Claim C7. After the constructor, and after any sequence of the events the module handles
  (pointer-down on a cell or a column header with or without shift or ctrl, pointer-move,
  pointer-up, page change), \<^verbatim>\<open>ranges\<close> is not empty and \<^verbatim>\<open>getActiveRange\<close> returns
  its last element. A handler that throws leaves the state it had reached, and the
  property holds there too.
\<close>

theorem ranges_never_empty:
  "ranges constructed \<noteq> [] \<and>
   ranges (run t evs constructed) \<noteq> [] \<and>
   getActiveRange (run t evs constructed) = Some (last (ranges (run t evs constructed)))"
proof -
  have "ranges constructed \<noteq> []"
    by (simp add: constructed_def)
  moreover from this have "ranges (run t evs constructed) \<noteq> []"
    by (rule run_nonempty)
  ultimately show ?thesis
    by (simp add: getActiveRange_last)
qed

theorem ranges_never_empty_witness:
  "ranges (run grid [CellMouseDown plain 2 colA, ColumnMouseDown shift colB, PageChanged,
                     CellMouseMove 3 colA, MouseUp] constructed) \<noteq> []"
  using ranges_never_empty
          [where t = grid
             and evs = "[CellMouseDown plain 2 colA, ColumnMouseDown shift colB, PageChanged,
                         CellMouseMove 3 colA, MouseUp]"]
  by simp

subsection \<open>A drag from a row header\<close>

lemma run_Nil: "run t [] s = s"
  by (simp add: run_def)

lemma run_Cons: "run t (ev # evs) s = run t evs (state_of (handle t ev s))"
  by (simp add: run_def)

lemma run_append: "run t (evs @ evs') s = run t evs' (run t evs s)"
  by (simp add: run_def)

lemma row_drag_D:
  "row_drag r0 s \<Longrightarrow> selecting s = SelRow \<and> ranges s = [last (ranges s)] \<and>
     start (last (ranges s)) = \<lparr>row = r0, col = 0\<rparr>"
  by (auto simp: row_drag_def split: list.splits)

lemma row_drag_cell_move:
  assumes "row_drag r0 s"
  shows "handleCellMouseMove t p c s =
           Done (s\<lparr>ranges := [setEnd (p - 1) (int (length (columns t)) - 2) (last (ranges s))]\<rparr>)"
proof -
  from assms have s: "selecting s = SelRow" "ranges s = [last (ranges s)]"
    by (auto dest: row_drag_D)
  then have "ranges s \<noteq> []" "butlast (ranges s) = []"
    by (metis list.discI, metis butlast.simps(2))
  with s(1) show ?thesis
    by (simp add: handleCellMouseMove_def endSelection_def onActiveRange_nonempty attempt_def
        getColumns_def Let_def)
qed

lemma row_drag_column_move:
  assumes "row_drag r0 s"
  shows "handleColumnMouseMove t c s = Done s"
  using row_drag_D[OF assms]
  by (simp add: handleColumnMouseMove_def endSelection_def attempt_def)

lemma row_drag_move:
  assumes "row_drag r0 s" and "is_move ev"
  shows "row_drag r0 (state_of (handle t ev s))"
proof (cases ev)
  case (CellMouseMove p c)
  with assms(1) row_drag_D[OF assms(1)] show ?thesis
    by (simp add: row_drag_cell_move row_drag_def setEnd_fields)
next
  case (ColumnMouseMove c)
  with assms(1) show ?thesis
    by (simp add: row_drag_column_move)
qed (use assms(2) in simp_all)

lemma row_drag_moves:
  "row_drag r0 s \<Longrightarrow> list_all is_move evs \<Longrightarrow> row_drag r0 (run t evs s)"
  by (induction evs arbitrary: s) (simp_all add: run_Nil run_Cons row_drag_move)

lemma row_header_down:
  assumes "field hc = rowHeaderField t" and "\<not> shiftKey ev" and "\<not> ctrlKey ev"
  shows "row_drag (p - 1) (state_of (handleCellMouseDown t ev p hc s))"
  using assms
  by (simp add: handleCellMouseDown_def select_def beginSelection_def endSelection_def
      onActiveRange_nonempty attempt_def getColumns_def Let_def row_drag_def
      setStart_fields setEnd_fields)

text \<open>
  Claim C3. A plain pointer-down on the row-header cell of row 2 (position 3), then any
  pointer-moves, then a pointer-move over a cell of row 5 (position 6): \<^verbatim>\<open>ranges\<close>
  holds one range, from \<open>(2, 0)\<close> to \<open>(5, lastCol)\<close> with \<open>lastCol\<close> the number of
  columns minus two, the mode is \<^verbatim>\<open>"row"\<close>, and \<^verbatim>\<open>selectingAllColumnsOfRow\<close> is
  true for the rows 2 to 5 and for no other row.
\<close>

theorem row_header_drag:
  fixes t :: "'v Table" and ev :: MouseEvent and hc c :: Column and p :: int
    and mvs :: "event list" and s :: Spreadsheet
  assumes "field hc = rowHeaderField t" and "\<not> shiftKey ev" and "\<not> ctrlKey ev"
    and "list_all is_move mvs"
  defines "lastCol \<equiv> int (length (columns t)) - 2"
  defines "s' \<equiv> run t (CellMouseDown ev 3 hc # mvs @ [CellMouseMove 6 c]) s"
  shows "ranges s' = [\<lparr>start = \<lparr>row = 2, col = 0\<rparr>, endpt = \<lparr>row = 5, col = lastCol\<rparr>,
                       minRow = 2, maxRow = 5, minCol = min 0 lastCol, maxCol = max 0 lastCol\<rparr>] \<and>
         selecting s' = SelRow \<and>
         selectingAllColumnsOfRow t s' r = (2 \<le> r \<and> r \<le> 5)"
proof -
  let ?s0 = "state_of (handleCellMouseDown t ev 3 hc s)"
  let ?s1 = "run t mvs ?s0"
  have "row_drag (3 - 1) ?s0"
    using assms(1-3) by (rule row_header_down)
  then have "row_drag 2 ?s0" by simp
  then have drag: "row_drag 2 ?s1"
    using assms(4) by (rule row_drag_moves)
  have s': "s' = state_of (handleCellMouseMove t 6 c ?s1)"
    by (simp add: s'_def run_Cons run_append run_Nil)
  have rg: "setEnd (6 - 1) lastCol (last (ranges ?s1)) =
        \<lparr>start = \<lparr>row = 2, col = 0\<rparr>, endpt = \<lparr>row = 5, col = lastCol\<rparr>,
         minRow = 2, maxRow = 5, minCol = min 0 lastCol, maxCol = max 0 lastCol\<rparr>"
    using row_drag_D[OF drag] by (simp add: setEnd_def updateMinMax_def)
  have ranges: "ranges s' = [\<lparr>start = \<lparr>row = 2, col = 0\<rparr>, endpt = \<lparr>row = 5, col = lastCol\<rparr>,
                       minRow = 2, maxRow = 5, minCol = min 0 lastCol, maxCol = max 0 lastCol\<rparr>]"
    unfolding s' row_drag_cell_move[OF drag] using rg by (simp add: lastCol_def)
  have mode: "selecting s' = SelRow"
    unfolding s' row_drag_cell_move[OF drag] using row_drag_D[OF drag] by simp
  have "selectingAllColumnsOfRow t s' r = (2 \<le> r \<and> r \<le> 5)"
    by (auto simp add: selectingAllColumnsOfRow_def ranges mode withinRow_def lastCol_def)
  with ranges mode show ?thesis by simp
qed

theorem row_header_drag_witness:
  "ranges (run grid [CellMouseDown plain 3 hdr, CellMouseMove 4 colA, ColumnMouseMove colB,
                     CellMouseMove 6 colB] constructed) =
     [\<lparr>start = \<lparr>row = 2, col = 0\<rparr>, endpt = \<lparr>row = 5, col = 1\<rparr>,
       minRow = 2, maxRow = 5, minCol = 0, maxCol = 1\<rparr>] \<and>
   selectingAllColumnsOfRow grid
     (run grid [CellMouseDown plain 3 hdr, CellMouseMove 4 colA, ColumnMouseMove colB,
                CellMouseMove 6 colB] constructed) 2 \<and>
   selectingAllColumnsOfRow grid
     (run grid [CellMouseDown plain 3 hdr, CellMouseMove 4 colA, ColumnMouseMove colB,
                CellMouseMove 6 colB] constructed) 5 \<and>
   \<not> selectingAllColumnsOfRow grid
     (run grid [CellMouseDown plain 3 hdr, CellMouseMove 4 colA, ColumnMouseMove colB,
                CellMouseMove 6 colB] constructed) 1 \<and>
   \<not> selectingAllColumnsOfRow grid
     (run grid [CellMouseDown plain 3 hdr, CellMouseMove 4 colA, ColumnMouseMove colB,
                CellMouseMove 6 colB] constructed) 6"
  using row_header_drag
          [where t = grid and hc = hdr and ev = plain and c = colB and s = constructed
             and mvs = "[CellMouseMove 4 colA, ColumnMouseMove colB]" and r = 2]
        row_header_drag
          [where t = grid and hc = hdr and ev = plain and c = colB and s = constructed
             and mvs = "[CellMouseMove 4 colA, ColumnMouseMove colB]" and r = 5]
        row_header_drag
          [where t = grid and hc = hdr and ev = plain and c = colB and s = constructed
             and mvs = "[CellMouseMove 4 colA, ColumnMouseMove colB]" and r = 1]
        row_header_drag
          [where t = grid and hc = hdr and ev = plain and c = colB and s = constructed
             and mvs = "[CellMouseMove 4 colA, ColumnMouseMove colB]" and r = 6]
  by (simp add: grid_def hdr_def plain_def)

subsection \<open>The corner header\<close>

lemma findIndex_nth:
  "distinct xs \<Longrightarrow> i < length xs \<Longrightarrow> findIndex (\<lambda>k. xs ! i = k) xs = int i"
proof (induction xs arbitrary: i)
  case Nil
  then show ?case by simp
next
  case (Cons x xs)
  show ?case
  proof (cases i)
    case 0
    then show ?thesis by simp
  next
    case (Suc j)
    with Cons.prems have j: "j < length xs" and "xs ! j \<noteq> x"
      by auto
    moreover from Cons.IH[OF _ j] Cons.prems have "findIndex (\<lambda>k. xs ! j = k) xs = int j"
      by simp
    ultimately show ?thesis
      using Suc by simp
  qed
qed

lemma topLeftCell_grid:
  assumes "rows t \<noteq> []" and "2 \<le> length (columnsByIndex t)"
  shows "topLeftCell t = Inr (Some (CellEl 1 (columnsByIndex t ! 1)))"
  using assms
  by (simp add: topLeftCell_def getRowFromPosition_def rowCells_def elem_at_def Suc_le_eq)

lemma bottomRightCell_last:
  assumes "columns t \<noteq> []" and "columnCells t (last (columns t)) \<noteq> []"
  shows "bottomRightCell t = Inr (Some (last (columnCells t (last (columns t)))))"
  using assms by (simp add: bottomRightCell_def js_slice_from_last elem_at_def)

text \<open>
  What the handler does on the corner header, on a grid with at least one row and one data
  column whose last column is not a second row-header column: the range runs from
  \<open>(0, 0)\<close> to the last cell that the last column holds, at the position \<open>p\<close>.
\<close>

lemma corner_header_ends_at_last_cell:
  fixes t :: "'v Table" and ev :: MouseEvent and c :: Column and s :: Spreadsheet and p :: int
  assumes "field c = rowHeaderField t"
    and "rows t \<noteq> []"
    and "columnsByIndex t = columns t" and "distinct (columns t)" and "2 \<le> length (columns t)"
    and "field (last (columns t)) \<noteq> rowHeaderField t"
    and "columnCells t (last (columns t)) \<noteq> []"
    and "last (columnCells t (last (columns t))) = CellEl p (last (columns t))"
    and "1 \<le> p"
  defines "lastCol \<equiv> int (length (columns t)) - 2"
  defines "s' \<equiv> \<lparr>ranges = [\<lparr>start = \<lparr>row = 0, col = 0\<rparr>,
                             endpt = \<lparr>row = p - 1, col = lastCol\<rparr>,
                             minRow = 0, maxRow = p - 1, minCol = 0, maxCol = lastCol\<rparr>],
                  selecting = SelAll\<rparr>"
  shows "handleColumnMouseDown t ev c s = Done s' \<and>
         selectingAllColumnsOfRow t s' r \<and> selectingAllRowsOfColumn t s' k"
proof -
  let ?s1 = "s\<lparr>ranges := [new_Range 0 0], selecting := SelAll\<rparr>"
  let ?m = "length (columns t)"
  have ne: "columns t \<noteq> []"
    using assms(5) by auto
  have tl: "topLeftCell t = Inr (Some (CellEl 1 (columns t ! 1)))"
    using topLeftCell_grid[of t] assms(2,3,5) by simp
  have br: "bottomRightCell t = Inr (Some (CellEl p (last (columns t))))"
    using bottomRightCell_last[OF ne assms(7)] assms(8) by simp
  have "findColumnIndex t (columns t ! 1) = int 1"
    unfolding findColumnIndex_def assms(3)
    using assms(4,5) by (intro findIndex_nth) simp_all
  then have i1: "findColumnIndex t (columns t ! 1) - 1 = 0"
    by simp
  have "findColumnIndex t (columns t ! (?m - 1)) = int (?m - 1)"
    unfolding findColumnIndex_def assms(3)
    using assms(4,5) by (intro findIndex_nth) simp_all
  then have il: "findColumnIndex t (last (columns t)) - 1 = lastCol"
    using ne assms(5) by (simp add: last_conv_nth lastCol_def)
  have bgn: "beginSelection_opt t (Some (CellEl 1 (columns t ! 1))) ?s1 =
                 Inr (?s1\<lparr>ranges := [setStart 0 0 (new_Range 0 0)]\<rparr>)"
    using i1 by (simp add: beginSelection_opt_def beginSelection_def onActiveRange_nonempty Let_def)
  have "endSelection_opt t (Some (CellEl p (last (columns t))))
           (?s1\<lparr>ranges := [setStart 0 0 (new_Range 0 0)]\<rparr>) =
        Inr (?s1\<lparr>ranges := [setEnd (p - 1) lastCol (setStart 0 0 (new_Range 0 0))]\<rparr>)"
    using il assms(6)
    by (simp add: endSelection_opt_def endSelection_def onActiveRange_nonempty Let_def)
  moreover have "setEnd (p - 1) lastCol (setStart 0 0 (new_Range 0 0)) =
       \<lparr>start = \<lparr>row = 0, col = 0\<rparr>, endpt = \<lparr>row = p - 1, col = lastCol\<rparr>,
        minRow = 0, maxRow = p - 1, minCol = 0, maxCol = lastCol\<rparr>"
    using assms(5,9)
    by (simp add: setEnd_def setStart_def new_Range_def updateMinMax_def lastCol_def)
  ultimately have "handleColumnMouseDown t ev c s = Done s'"
    using assms(1) tl br bgn
    by (simp add: handleColumnMouseDown_def attempt_def s'_def)
  moreover have "selectingAllColumnsOfRow t s' r" "selectingAllRowsOfColumn t s' k"
    by (simp_all add: selectingAllColumnsOfRow_def selectingAllRowsOfColumn_def s'_def)
  ultimately show ?thesis by simp
qed

text \<open>
  When the last column holds a cell for each of the six rows, the range reaches
  \<open>(lastRow, lastCol) = (5, 1)\<close>.
\<close>

lemma corner_header_full_columns:
  "handleColumnMouseDown grid plain hdr constructed =
     Done \<lparr>ranges = [\<lparr>start = \<lparr>row = 0, col = 0\<rparr>, endpt = \<lparr>row = 5, col = 1\<rparr>,
                       minRow = 0, maxRow = 5, minCol = 0, maxCol = 1\<rparr>],
            selecting = SelAll\<rparr>"
  using corner_header_ends_at_last_cell
          [where t = grid and ev = plain and c = hdr and s = constructed and p = 6]
  by (simp add: grid_def hdr_def colA_def colB_def)

text \<open>
  Claim C5. A pointer-down on the corner header is to leave one range from \<open>(0, 0)\<close> to
  \<open>(lastRow, lastCol)\<close>, the mode \<^verbatim>\<open>"all"\<close> and both header predicates true for every
  row and column. The handler takes the end of the range from the last cell that the last
  column holds. On the grid of six rows whose columns hold the cells of the first four
  rows, the range it leaves is \<open>(0, 0)\<close> to \<open>(3, 1)\<close>: it stops two rows short of
  \<open>lastRow = 5\<close>, and the cell \<open>(5, 1)\<close> of the last row is outside it, although the row
  at position 6 is there. The mode is \<^verbatim>\<open>"all"\<close> and the two predicates are true, as
  claimed.
\<close>

theorem corner_header_short_columns:
  "handleColumnMouseDown shortColumns plain hdr constructed =
     Done \<lparr>ranges = [\<lparr>start = \<lparr>row = 0, col = 0\<rparr>, endpt = \<lparr>row = 3, col = 1\<rparr>,
                       minRow = 0, maxRow = 3, minCol = 0, maxCol = 1\<rparr>],
            selecting = SelAll\<rparr> \<and>
   int (length (rows shortColumns)) - 1 = 5 \<and>
   rowsPerPage shortColumns - 1 = 5 \<and>
   int (length (columns shortColumns)) - 2 = 1 \<and>
   getRowFromPosition shortColumns 6 = Some 6 \<and>
   \<not> isInside \<lparr>start = \<lparr>row = 0, col = 0\<rparr>, endpt = \<lparr>row = 3, col = 1\<rparr>,
               minRow = 0, maxRow = 3, minCol = 0, maxCol = 1\<rparr> 5 1 \<and>
   selectingAllColumnsOfRow shortColumns
     (state_of (handleColumnMouseDown shortColumns plain hdr constructed)) 5 \<and>
   selectingAllRowsOfColumn shortColumns
     (state_of (handleColumnMouseDown shortColumns plain hdr constructed)) 1"
  by (simp add: shortColumns_def grid_defs model_defs topLeftCell_def bottomRightCell_def
      getRowFromPosition_def rowCells_def beginSelection_opt_def endSelection_opt_def
      isInside_def selectingAllColumnsOfRow_def selectingAllRowsOfColumn_def)

subsection \<open>getSelectedData\<close>

declare collectRows.simps [simp del]

lemma pickFields_fold:
  "foldl (\<lambda>result c. result(field c \<mapsto> rw (field c))) m cols f =
     (if f \<in> field ` set cols then Some (rw f) else m f)"
  by (induction cols arbitrary: m) auto

lemma pickFields_apply:
  "pickFields cols rw f = (if f \<in> field ` set cols then Some (rw f) else None)"
  by (simp add: pickFields_def pickFields_fold)

lemma dom_pickFields: "dom (pickFields cols rw) = field ` set cols"
  by (auto simp: dom_def pickFields_apply)

lemma collectRows_in_bounds:
  "0 \<le> r \<Longrightarrow> mx < int (length rws) \<Longrightarrow>
   collectRows rws cols r mx acc = Inr (acc @ map (\<lambda>k. pickFields cols (rws ! nat k)) [r..mx])"
proof (induction rws cols r mx acc rule: collectRows.induct)
  case (1 rws cols r mx acc)
  show ?case
  proof (cases "r \<le> mx")
    case True
    with "1.prems" have at: "elem_at rws r = Some (rws ! nat r)"
      by (simp add: elem_at_def)
    from "1.prems" have "collectRows rws cols (r + 1) mx (acc @ [pickFields cols (rws ! nat r)]) =
        Inr ((acc @ [pickFields cols (rws ! nat r)]) @
             map (\<lambda>k. pickFields cols (rws ! nat k)) [r + 1..mx])"
      by (intro "1.IH"[OF True at]) simp_all
    with True at show ?thesis
      by (subst collectRows.simps) (simp add: upto_rec1[of r mx])
  next
    case False
    then show ?thesis
      by (subst collectRows.simps) simp
  qed
qed

lemma js_slice_in_bounds:
  assumes "0 \<le> a" and "a \<le> b" and "b < int (length xs)"
  shows "js_slice xs a (b + 1) = map (\<lambda>k. xs ! nat k) [a..b]"
proof (rule nth_equalityI)
  show len: "length (js_slice xs a (b + 1)) = length (map (\<lambda>k. xs ! nat k) [a..b])"
    using assms by (simp add: js_slice_def Let_def)
  fix i assume "i < length (js_slice xs a (b + 1))"
  with len have i: "i < nat (b - a + 1)" by simp
  with assms show "js_slice xs a (b + 1) ! i = map (\<lambda>k. xs ! nat k) [a..b] ! i"
    by (simp add: js_slice_def Let_def nat_add_distrib)
qed

text \<open>
  Claim C8. For a range whose bounds lie within the grid, \<^verbatim>\<open>getSelectedData\<close> returns
  one record for each row from \<open>minRow\<close> to \<open>maxRow\<close>, in that order; the keys of each
  record are exactly the fields of the data columns \<open>minCol\<close> to \<open>maxCol\<close> (the columns
  \<open>minCol + 1\<close> to \<open>maxCol + 1\<close> of \<^verbatim>\<open>columnsByIndex\<close>, whose first column is the
  row header), each with the value the row has there; \<open>rowCount\<close> is
  \<open>maxRow - minRow + 1\<close> and \<open>columnCount\<close> is \<open>maxCol - minCol + 1\<close>. Without a
  range argument the active range is used.
\<close>

theorem getSelectedData_in_grid:
  fixes t :: "'v Table" and s :: Spreadsheet and rg :: Range
  assumes "0 \<le> minRow rg" and "minRow rg \<le> maxRow rg" and "maxRow rg < int (length (rows t))"
    and "0 \<le> minCol rg" and "minCol rg \<le> maxCol rg"
    and "maxCol rg + 1 < int (length (columnsByIndex t))"
  defines "cols \<equiv> map (\<lambda>k. columnsByIndex t ! nat (k + 1)) [minCol rg .. maxCol rg]"
  shows "getSelectedData t s (Some rg) =
           Inr \<lparr>data = map (\<lambda>k. pickFields cols (rows t ! nat k)) [minRow rg .. maxRow rg],
                rowCount = maxRow rg - minRow rg + 1,
                columnCount = maxCol rg - minCol rg + 1\<rparr> \<and>
         dom (pickFields cols rw) = field ` set cols \<and>
         (f \<in> field ` set cols \<longrightarrow> pickFields cols rw f = Some (rw f)) \<and>
         (ranges s \<noteq> [] \<longrightarrow>
            getSelectedData t s None = getSelectedData t s (Some (last (ranges s))))"
proof -
  have "js_slice (columnsByIndex t) (minCol rg + 1) (maxCol rg + 1 + 1) =
          map (\<lambda>k. columnsByIndex t ! nat k) [minCol rg + 1 .. maxCol rg + 1]"
    using assms(4-6) by (intro js_slice_in_bounds) simp_all
  also have "\<dots> = cols"
    unfolding cols_def
    by (rule nth_equalityI) (simp_all add: add.commute add.left_commute)
  finally have slice: "js_slice (columnsByIndex t) (minCol rg + 1) (maxCol rg + 2) = cols"
    by (simp add: add.assoc)
  have len: "int (length cols) = maxCol rg - minCol rg + 1"
    using assms(5) by (simp add: cols_def)
  have coll: "collectRows (rows t) cols (minRow rg) (maxRow rg) [] =
          Inr ([] @ map (\<lambda>k. pickFields cols (rows t ! nat k)) [minRow rg .. maxRow rg])"
    using assms(1,3) by (rule collectRows_in_bounds)
  have "getSelectedData t s (Some rg) =
           Inr \<lparr>data = map (\<lambda>k. pickFields cols (rows t ! nat k)) [minRow rg .. maxRow rg],
                rowCount = maxRow rg - minRow rg + 1,
                columnCount = maxCol rg - minCol rg + 1\<rparr>"
    using assms(2) by (simp add: getSelectedData_def slice coll len)
  moreover have "ranges s \<noteq> [] \<longrightarrow>
            getSelectedData t s None = getSelectedData t s (Some (last (ranges s)))"
    by (simp add: getSelectedData_def getActiveRange_last)
  ultimately show ?thesis
    by (simp add: dom_pickFields pickFields_apply)
qed

text \<open>
  A range of two rows and two columns on the grid of six rows: two records, each with the
  keys \<open>a\<close> and \<open>b\<close>, and both counts are 2.
\<close>

theorem getSelectedData_in_grid_witness:
  "map_sum id (\<lambda>res. (length (data res), rowCount res, columnCount res))
     (getSelectedData grid constructed (Some (setEnd 2 1 (new_Range 1 0)))) = Inr (2, 2, 2) \<and>
   map_sum id (\<lambda>res. map dom (data res))
     (getSelectedData grid constructed (Some (setEnd 2 1 (new_Range 1 0)))) =
     Inr [{''a'', ''b''}, {''a'', ''b''}] \<and>
   map_sum id (\<lambda>res. map (\<lambda>d. (d ''a'', d ''b'')) (data res))
     (getSelectedData grid constructed (Some (setEnd 2 1 (new_Range 1 0)))) =
     Inr [(Some (Some 1), Some (Some 10)), (Some (Some 2), Some (Some 20))] \<and>
   getSelectedData grid constructed None = getSelectedData grid constructed (Some (new_Range 0 0))"
proof -
  have upto: "[0..1::int] = [0, 1]" "[1..2::int] = [1, 2]"
    by (simp_all add: upto.simps)
  show ?thesis
    using getSelectedData_in_grid
            [where t = grid and s = constructed and rg = "setEnd 2 1 (new_Range 1 0)"
               and rw = "gridRow 1" and f = "''a''"]
    by (simp add: grid_defs setEnd_fields new_Range_fields dom_pickFields pickFields_apply
        insert_commute upto)
qed

end
